theory Spec2Isabelle
  imports Main "HOL-Library.Word"
begin

unbundle bit_operations_syntax

section \<open>The Aspeed watchdog driver, \<open>drivers/watchdog/aspeed_wdt.c\<close>\<close>

subsection \<open>Register file and effects\<close>

text \<open>
  The driver talks to one block of 32-bit memory-mapped registers. The block is modelled
  as a stub register file: a function from the byte offset to the value last written
  there, so that \<open>readl\<close> returns what the last \<open>writel\<close> to that offset stored. Every
  \<open>writel\<close> and every \<open>mdelay\<close> is also appended to a trace, oldest first, so that the
  order of the effects of an operation can be stated.
\<close>

type_synonym u32 = "32 word"

datatype io_event =
    Writel u32 u32   \<comment> \<open>\<open>writel(value, base + offset)\<close>: value first, as in the source\<close>
  | Mdelay nat       \<comment> \<open>\<open>mdelay(ms)\<close>\<close>

record mmio =
  regs :: "u32 \<Rightarrow> u32"
  events :: "io_event list"

definition writel :: "u32 \<Rightarrow> u32 \<Rightarrow> mmio \<Rightarrow> mmio" where
  "writel v off m = m\<lparr>regs := (regs m)(off := v), events := events m @ [Writel v off]\<rparr>"

definition readl :: "u32 \<Rightarrow> mmio \<Rightarrow> u32" where
  "readl off m = regs m off"

definition mdelay :: "nat \<Rightarrow> mmio \<Rightarrow> mmio" where
  "mdelay ms m = m\<lparr>events := events m @ [Mdelay ms]\<rparr>"

subsection \<open>Constants (lines 33--59)\<close>

definition BIT :: "nat \<Rightarrow> u32" where
  "BIT n = push_bit n 1"

definition WDT_STATUS :: u32 where "WDT_STATUS = 0x00"
definition WDT_RELOAD_VALUE :: u32 where "WDT_RELOAD_VALUE = 0x04"
definition WDT_RESTART :: u32 where "WDT_RESTART = 0x08"
definition WDT_CTRL :: u32 where "WDT_CTRL = 0x0C"
definition WDT_CTRL_RESET_MODE_SOC :: u32 where
  "WDT_CTRL_RESET_MODE_SOC = push_bit 5 0x00"
definition WDT_CTRL_RESET_MODE_FULL_CHIP :: u32 where
  "WDT_CTRL_RESET_MODE_FULL_CHIP = push_bit 5 0x01"
definition WDT_CTRL_RESET_MODE_ARM_CPU :: u32 where
  "WDT_CTRL_RESET_MODE_ARM_CPU = push_bit 5 0x10"
definition WDT_CTRL_1MHZ_CLK :: u32 where "WDT_CTRL_1MHZ_CLK = BIT 4"
definition WDT_CTRL_WDT_EXT :: u32 where "WDT_CTRL_WDT_EXT = BIT 3"
definition WDT_CTRL_WDT_INTR :: u32 where "WDT_CTRL_WDT_INTR = BIT 2"
definition WDT_CTRL_RESET_SYSTEM :: u32 where "WDT_CTRL_RESET_SYSTEM = BIT 1"
definition WDT_CTRL_ENABLE :: u32 where "WDT_CTRL_ENABLE = BIT 0"
definition WDT_RESET_WIDTH :: u32 where "WDT_RESET_WIDTH = 0x18"
definition WDT_RESET_WIDTH_ACTIVE_HIGH :: u32 where "WDT_RESET_WIDTH_ACTIVE_HIGH = BIT 31"
definition WDT_ACTIVE_HIGH_MAGIC :: u32 where "WDT_ACTIVE_HIGH_MAGIC = push_bit 24 0xA5"
definition WDT_ACTIVE_LOW_MAGIC :: u32 where "WDT_ACTIVE_LOW_MAGIC = push_bit 24 0x5A"
definition WDT_RESET_WIDTH_PUSH_PULL :: u32 where "WDT_RESET_WIDTH_PUSH_PULL = BIT 30"
definition WDT_PUSH_PULL_MAGIC :: u32 where "WDT_PUSH_PULL_MAGIC = push_bit 24 0xA8"
definition WDT_OPEN_DRAIN_MAGIC :: u32 where "WDT_OPEN_DRAIN_MAGIC = push_bit 24 0x8A"
definition WDT_RESET_WIDTH_DURATION :: u32 where "WDT_RESET_WIDTH_DURATION = 0xFFF"

definition WDT_RESTART_MAGIC :: u32 where "WDT_RESTART_MAGIC = 0x4755"

text \<open>\<open>WDT_MAX_TIMEOUT_MS\<close>: ``32 bits at 1MHz, in milliseconds''.\<close>

definition WDT_MAX_TIMEOUT_MS :: u32 where "WDT_MAX_TIMEOUT_MS = 4294967"
definition WDT_DEFAULT_TIMEOUT :: u32 where "WDT_DEFAULT_TIMEOUT = 30"

text \<open>
  \<open>WDT_RATE_1MHZ\<close> is a C \<open>int\<close> constant. It is multiplied with an \<open>unsigned int\<close> in
  \<open>aspeed_wdt_start\<close> and \<open>aspeed_wdt_set_timeout\<close> (the product is then unsigned,
  modulo \<open>2 ^ 32\<close>) and with \<open>int\<close> literals in \<open>aspeed_wdt_restart\<close>.
\<close>

definition WDT_RATE_1MHZ :: int where "WDT_RATE_1MHZ = 1000000"

text \<open>Error numbers of the kernel, returned negated.\<close>

definition ENOMEM :: int where "ENOMEM = 12"
definition EINVAL :: int where "EINVAL = 22"

subsection \<open>Driver state (lines 20--24)\<close>

text \<open>
  Of \<open>struct watchdog_device\<close> the driver touches \<open>timeout\<close>, \<open>max_hw_heartbeat_ms\<close>
  (both \<open>unsigned int\<close>) and \<open>status\<close> (\<open>unsigned long\<close>, 32 bits on the ARM SoCs the
  driver is for). In \<open>struct aspeed_wdt\<close>, \<open>base\<close> stands for the register block the
  pointer refers to; the instance owns it exclusively.
\<close>

record watchdog_device =
  timeout :: u32
  max_hw_heartbeat_ms :: u32
  status :: u32

record aspeed_wdt =
  wdd :: watchdog_device
  base :: mmio
  ctrl :: u32

text \<open>\<open>writel(v, wdt->base + off)\<close>.\<close>

definition wdt_writel :: "u32 \<Rightarrow> u32 \<Rightarrow> aspeed_wdt \<Rightarrow> aspeed_wdt" where
  "wdt_writel v off wdt = wdt\<lparr>base := writel v off (base wdt)\<rparr>"

text \<open>\<open>set_bit(nr, &word)\<close> and \<open>test_bit\<close> on a single \<open>unsigned long\<close>.\<close>

definition set_bit_ul :: "nat \<Rightarrow> u32 \<Rightarrow> u32" where
  "set_bit_ul nr w = w OR push_bit nr 1"

definition test_bit_ul :: "nat \<Rightarrow> u32 \<Rightarrow> bool" where
  "test_bit_ul nr w = bit w nr"

subsection \<open>Operations (lines 66--130)\<close>

text \<open>
  \<open>aspeed_wdt_enable(wdt, int count)\<close>: the count is a C \<open>int\<close>, modelled by its
  value; \<open>writel\<close> converts it to \<open>u32\<close> (modulo \<open>2 ^ 32\<close>). A caller that passes an
  \<open>unsigned int\<close> converts it to \<open>int\<close> first (two's complement, \<open>sint\<close>).
\<close>

definition aspeed_wdt_enable :: "aspeed_wdt \<Rightarrow> int \<Rightarrow> aspeed_wdt" where
  "aspeed_wdt_enable wdt0 count =
     (let wdt = wdt0\<lparr>ctrl := ctrl wdt0 OR WDT_CTRL_ENABLE\<rparr>;
          wdt = wdt_writel 0 WDT_CTRL wdt;
          wdt = wdt_writel (word_of_int count) WDT_RELOAD_VALUE wdt;
          wdt = wdt_writel WDT_RESTART_MAGIC WDT_RESTART wdt;
          wdt = wdt_writel (ctrl wdt) WDT_CTRL wdt
      in wdt)"

definition aspeed_wdt_start :: "aspeed_wdt \<Rightarrow> int \<times> aspeed_wdt" where
  "aspeed_wdt_start wdt =
     (0, aspeed_wdt_enable wdt (sint (timeout (wdd wdt) * word_of_int WDT_RATE_1MHZ)))"

definition aspeed_wdt_stop :: "aspeed_wdt \<Rightarrow> int \<times> aspeed_wdt" where
  "aspeed_wdt_stop wdt0 =
     (let wdt = wdt0\<lparr>ctrl := ctrl wdt0 AND NOT WDT_CTRL_ENABLE\<rparr>;
          wdt = wdt_writel (ctrl wdt) WDT_CTRL wdt
      in (0, wdt))"

definition aspeed_wdt_ping :: "aspeed_wdt \<Rightarrow> int \<times> aspeed_wdt" where
  "aspeed_wdt_ping wdt = (0, wdt_writel WDT_RESTART_MAGIC WDT_RESTART wdt)"

definition aspeed_wdt_set_timeout :: "aspeed_wdt \<Rightarrow> u32 \<Rightarrow> int \<times> aspeed_wdt" where
  "aspeed_wdt_set_timeout wdt0 t =
     (let wdt = wdt0\<lparr>wdd := (wdd wdt0)\<lparr>timeout := t\<rparr>\<rparr>;
          actual = min t (max_hw_heartbeat_ms (wdd wdt) * 1000);
          wdt = wdt_writel (actual * word_of_int WDT_RATE_1MHZ) WDT_RELOAD_VALUE wdt;
          wdt = wdt_writel WDT_RESTART_MAGIC WDT_RESTART wdt
      in (0, wdt))"

text \<open>
  \<open>aspeed_wdt_restart(wdd, unsigned long action, void *data)\<close>. The count
  \<open>128 * WDT_RATE_1MHZ / 1000\<close> is computed on \<open>int\<close>; all values are non-negative and
  below \<open>2 ^ 31\<close>, so C's truncating division is \<open>div\<close> and nothing overflows.
\<close>

definition aspeed_wdt_restart :: "aspeed_wdt \<Rightarrow> u32 \<Rightarrow> u32 \<Rightarrow> int \<times> aspeed_wdt" where
  "aspeed_wdt_restart wdt0 action data =
     (let wdt = aspeed_wdt_enable wdt0 (128 * WDT_RATE_1MHZ div 1000);
          wdt = wdt\<lparr>base := mdelay 1000 (base wdt)\<rparr>
      in (0, wdt))"

subsection \<open>Initialization (lines 157--262)\<close>

text \<open>
  The hardware description of one instance, as the probe reads it. Each field is the
  result of one device-tree query of the source:
  \<^item> \<open>reset_type\<close>: \<open>of_property_read_string(np, "aspeed,reset-type", ...)\<close>, \<open>None\<close> when
    the call returns an error;
  \<^item> \<open>external_signal\<close>: \<open>of_property_read_bool(np, "aspeed,external-signal")\<close>;
  \<^item> \<open>is_ast2500\<close>: \<open>of_device_is_compatible(np, "aspeed,ast2500-wdt")\<close>;
  \<^item> \<open>ext_push_pull\<close>, \<open>ext_active_high\<close>: the two \<open>of_property_read_bool\<close> queries;
  \<^item> \<open>ext_pulse_duration\<close>: \<open>of_property_read_u32(np, "aspeed,ext-pulse-duration", ...)\<close>,
    \<open>None\<close> when the call returns an error.
\<close>

record device_node =
  reset_type :: "string option"
  external_signal :: bool
  is_ast2500 :: bool
  ext_push_pull :: bool
  ext_active_high :: bool
  ext_pulse_duration :: "u32 option"

text \<open>
  What the kernel services called by the probe answer; their code is outside the driver,
  so their outcomes are parameters:
  \<^item> \<open>kzalloc_ok\<close>: \<open>devm_kzalloc\<close> returned memory (zero-filled);
  \<^item> \<open>ioremap_err\<close>: \<open>Some e\<close> when \<open>devm_ioremap_resource\<close> returned \<open>ERR_PTR(e)\<close>;
  \<^item> \<open>init_timeout\<close>: the value \<open>watchdog_init_timeout(&wdt->wdd, 0, &pdev->dev)\<close>
    leaves in \<open>wdd.timeout\<close>;
  \<^item> \<open>register_ret\<close>: what \<open>watchdog_register_device\<close> returns;
  \<^item> \<open>WDOG_HW_RUNNING\<close>: the number of the status bit of that name.
\<close>

record kernel =
  kzalloc_ok :: bool
  ioremap_err :: "int option"
  init_timeout :: "watchdog_device \<Rightarrow> u32"
  register_ret :: int
  WDOG_HW_RUNNING :: nat

text \<open>
  \<open>aspeed_wdt_probe\<close> is a straight sequence of blocks; each block is one definition
  below, in source order, and \<open>aspeed_wdt_probe\<close> chains them.

  Lines 166--188: the zero-filled instance, then \<open>max_hw_heartbeat_ms\<close>, the default
  \<open>timeout\<close>, \<open>watchdog_init_timeout\<close> and the initial \<open>ctrl\<close>. (\<open>info\<close>, \<open>ops\<close> and
  \<open>parent\<close> are pointers to fixed objects and are not modelled.)
\<close>

definition probe_defaults :: "kernel \<Rightarrow> mmio \<Rightarrow> aspeed_wdt" where
  "probe_defaults k io =
     (let wdt = \<lparr>wdd = \<lparr>timeout = 0, max_hw_heartbeat_ms = 0, status = 0\<rparr>,
                 base = io, ctrl = 0\<rparr>;
          wdt = wdt\<lparr>wdd := (wdd wdt)\<lparr>max_hw_heartbeat_ms := WDT_MAX_TIMEOUT_MS\<rparr>\<rparr>;
          wdt = wdt\<lparr>wdd := (wdd wdt)\<lparr>timeout := WDT_DEFAULT_TIMEOUT\<rparr>\<rparr>;
          wdt = wdt\<lparr>wdd := (wdd wdt)\<lparr>timeout := init_timeout k (wdd wdt)\<rparr>\<rparr>;
          wdt = wdt\<lparr>ctrl := WDT_CTRL_1MHZ_CLK\<rparr>
      in wdt)"

text \<open>Lines 194--207: reset type and external signal. \<open>!strcmp(a, b)\<close> is string equality.\<close>

definition probe_reset_type :: "device_node \<Rightarrow> aspeed_wdt \<Rightarrow> aspeed_wdt" where
  "probe_reset_type np wdt0 =
     (let wdt = (case reset_type np of
                   None \<Rightarrow> wdt0\<lparr>ctrl := ctrl wdt0 OR WDT_CTRL_RESET_SYSTEM\<rparr>
                 | Some s \<Rightarrow>
                     if s = ''cpu'' then wdt0\<lparr>ctrl := ctrl wdt0 OR WDT_CTRL_RESET_MODE_ARM_CPU\<rparr>
                     else if s = ''soc'' then wdt0\<lparr>ctrl := ctrl wdt0 OR WDT_CTRL_RESET_MODE_SOC\<rparr>
                     else if s = ''system'' then wdt0\<lparr>ctrl := ctrl wdt0 OR WDT_CTRL_RESET_SYSTEM\<rparr>
                     else wdt0)
      in if external_signal np then wdt\<lparr>ctrl := ctrl wdt OR WDT_CTRL_WDT_EXT\<rparr> else wdt)"

text \<open>Lines 209--218: a watchdog that is already running is started again and marked.\<close>

definition probe_hw_running :: "kernel \<Rightarrow> aspeed_wdt \<Rightarrow> aspeed_wdt" where
  "probe_hw_running k wdt0 =
     (if readl WDT_CTRL (base wdt0) AND WDT_CTRL_ENABLE \<noteq> 0 then
        (let wdt = snd (aspeed_wdt_start wdt0)
         in wdt\<lparr>wdd := (wdd wdt)\<lparr>status :=
                  set_bit_ul (WDOG_HW_RUNNING k) (status (wdd wdt))\<rparr>\<rparr>)
      else wdt0)"

text \<open>
  Lines 220--238: drive mode and polarity of the external pulse, on the ast2500 only.
  The magic values \<open>0xA5 << 24\<close> and so on are taken as the 32-bit patterns that
  \<open>reg |= ...\<close> stores.
\<close>

definition probe_reset_width :: "device_node \<Rightarrow> aspeed_wdt \<Rightarrow> aspeed_wdt" where
  "probe_reset_width np wdt0 =
     (if is_ast2500 np then
        (let reg = readl WDT_RESET_WIDTH (base wdt0);
             reg = reg AND WDT_RESET_WIDTH_DURATION;
             reg = (if ext_push_pull np then reg OR WDT_PUSH_PULL_MAGIC
                    else reg OR WDT_OPEN_DRAIN_MAGIC);
             wdt = wdt_writel reg WDT_RESET_WIDTH wdt0;
             reg = reg AND WDT_RESET_WIDTH_DURATION;
             reg = (if ext_active_high np then reg OR WDT_ACTIVE_HIGH_MAGIC
                    else reg OR WDT_ACTIVE_LOW_MAGIC)
         in wdt_writel reg WDT_RESET_WIDTH wdt)
      else wdt0)"

text \<open>Lines 240--251: the optional pulse duration; the first block that can fail.\<close>

definition probe_pulse_duration :: "device_node \<Rightarrow> aspeed_wdt \<Rightarrow> (int \<times> mmio) + aspeed_wdt" where
  "probe_pulse_duration np wdt =
     (case ext_pulse_duration np of
        Some duration \<Rightarrow>
          if duration > WDT_RESET_WIDTH_DURATION then Inl (- EINVAL, base wdt)
          else Inr (wdt_writel duration WDT_RESET_WIDTH wdt)
      | None \<Rightarrow> Inr wdt)"

text \<open>Lines 253--261: registration with the watchdog core.\<close>

definition probe_register :: "kernel \<Rightarrow> aspeed_wdt \<Rightarrow> (int \<times> mmio) + aspeed_wdt" where
  "probe_register k wdt =
     (if register_ret k \<noteq> 0 then Inl (register_ret k, base wdt) else Inr wdt)"

text \<open>
  \<open>aspeed_wdt_probe\<close>. The result is \<open>Inr wdt\<close> when the probe returns 0 (the instance
  that \<open>platform_set_drvdata\<close> stores), and \<open>Inl (err, io)\<close> when it returns the error
  \<open>err\<close>, with the register block as the probe left it.
\<close>

definition aspeed_wdt_probe :: "kernel \<Rightarrow> device_node \<Rightarrow> mmio \<Rightarrow> (int \<times> mmio) + aspeed_wdt" where
  "aspeed_wdt_probe k np io =
     (if \<not> kzalloc_ok k then Inl (- ENOMEM, io)
      else case ioremap_err k of
        Some e \<Rightarrow> Inl (e, io)
      | None \<Rightarrow>
         (let wdt = probe_defaults k io;
              wdt = probe_reset_type np wdt;
              wdt = probe_hw_running k wdt;
              wdt = probe_reset_width np wdt
          in case probe_pulse_duration np wdt of
               Inl err \<Rightarrow> Inl err
             | Inr wdt \<Rightarrow> probe_register k wdt))"

text \<open>The register block after a probe, whether it succeeded or not.\<close>

definition probe_io :: "(int \<times> mmio) + aspeed_wdt \<Rightarrow> mmio" where
  "probe_io r = (case r of Inl (err, io) \<Rightarrow> io | Inr wdt \<Rightarrow> base wdt)"

text \<open>
  Two observers of the trace: the events appended between two states of the register
  block, and whether an event is a write to a given offset.
\<close>

definition new_events :: "mmio \<Rightarrow> mmio \<Rightarrow> io_event list" where
  "new_events before after = drop (length (events before)) (events after)"

fun writes_to :: "u32 \<Rightarrow> io_event \<Rightarrow> bool" where
  "writes_to off (Writel v a) = (a = off)"
| "writes_to off (Mdelay ms) = False"

subsection \<open>A reference configuration\<close>

text \<open>
  Concrete inputs for evaluating the driver: a register block that reads zero
  everywhere, kernel services that succeed and leave the default timeout alone, and a
  device node without any optional property.
\<close>

definition idle_io :: mmio where
  "idle_io = \<lparr>regs = (\<lambda>off. 0), events = []\<rparr>"

definition plain_kernel :: kernel where
  "plain_kernel = \<lparr>kzalloc_ok = True, ioremap_err = None, init_timeout = timeout,
     register_ret = 0, WDOG_HW_RUNNING = 3\<rparr>"

definition plain_node :: device_node where
  "plain_node = \<lparr>reset_type = None, external_signal = False, is_ast2500 = False,
     ext_push_pull = False, ext_active_high = False, ext_pulse_duration = None\<rparr>"

definition plain_wdt :: aspeed_wdt where
  "plain_wdt = \<lparr>wdd = \<lparr>timeout = 30, max_hw_heartbeat_ms = 4294967, status = 0\<rparr>,
     base = idle_io, ctrl = 0x12\<rparr>"

text \<open>
  A register block on which the watchdog is already running, with only the enable flag
  set in the control register and the pulse register at \<open>0xFF\<close>; and the instance that
  the plain probe creates on it.
\<close>

definition armed_io :: mmio where
  "armed_io = idle_io\<lparr>regs := (regs idle_io)(WDT_CTRL := 0x01, WDT_RESET_WIDTH := 0xFF)\<rparr>"

definition armed_wdt :: aspeed_wdt where
  "armed_wdt = \<lparr>wdd = \<lparr>timeout = 30, max_hw_heartbeat_ms = 4294967, status = 8\<rparr>,
     base = \<lparr>regs = (regs armed_io)(WDT_RELOAD_VALUE := 30000000, WDT_RESTART := 0x4755,
                       WDT_CTRL := 0x13),
             events = [Writel 0 WDT_CTRL, Writel 30000000 WDT_RELOAD_VALUE,
                       Writel 0x4755 WDT_RESTART, Writel 0x13 WDT_CTRL]\<rparr>,
     ctrl = 0x13\<rparr>"

section \<open>Properties\<close>

subsection \<open>Values of the constants\<close>

lemmas reg_offsets = WDT_STATUS_def WDT_RELOAD_VALUE_def WDT_RESTART_def WDT_CTRL_def
  WDT_RESET_WIDTH_def

lemmas ctrl_bits = BIT_def WDT_CTRL_RESET_MODE_SOC_def WDT_CTRL_RESET_MODE_FULL_CHIP_def
  WDT_CTRL_RESET_MODE_ARM_CPU_def WDT_CTRL_1MHZ_CLK_def WDT_CTRL_WDT_EXT_def
  WDT_CTRL_WDT_INTR_def WDT_CTRL_RESET_SYSTEM_def WDT_CTRL_ENABLE_def

lemmas width_bits = WDT_ACTIVE_HIGH_MAGIC_def WDT_ACTIVE_LOW_MAGIC_def WDT_PUSH_PULL_MAGIC_def
  WDT_OPEN_DRAIN_MAGIC_def WDT_RESET_WIDTH_DURATION_def

lemma or_enable_and_enable: "(x OR WDT_CTRL_ENABLE) AND WDT_CTRL_ENABLE = WDT_CTRL_ENABLE"
  by (simp add: ctrl_bits bit_eq_iff bit_simps)

lemma enable_nonzero: "WDT_CTRL_ENABLE \<noteq> 0"
  by (simp add: ctrl_bits)

text \<open>Up to 4294 seconds the count in microseconds fits the 32-bit counter.\<close>

lemma scaled_exact:
  fixes t :: u32
  assumes "unat t \<le> 4294"
  shows "unat (t * 1000000) = unat t * 1000000"
proof -
  have "unat t * 1000000 < 2 ^ 32" using assms by simp
  then show ?thesis by (simp add: unat_word_ariths)
qed

subsection \<open>Effects of \<open>aspeed_wdt_enable\<close>\<close>

lemma enable_regs:
  "regs (base (aspeed_wdt_enable w c)) =
     (regs (base w))(WDT_RELOAD_VALUE := word_of_int c, WDT_RESTART := WDT_RESTART_MAGIC,
        WDT_CTRL := ctrl w OR WDT_CTRL_ENABLE)"
  by (simp add: aspeed_wdt_enable_def wdt_writel_def writel_def Let_def reg_offsets fun_eq_iff)

lemma enable_events:
  "events (base (aspeed_wdt_enable w c)) = events (base w) @
     [Writel 0 WDT_CTRL, Writel (word_of_int c) WDT_RELOAD_VALUE,
      Writel WDT_RESTART_MAGIC WDT_RESTART, Writel (ctrl w OR WDT_CTRL_ENABLE) WDT_CTRL]"
  by (simp add: aspeed_wdt_enable_def wdt_writel_def writel_def Let_def)

lemma enable_ctrl: "ctrl (aspeed_wdt_enable w c) = ctrl w OR WDT_CTRL_ENABLE"
  by (simp add: aspeed_wdt_enable_def wdt_writel_def writel_def Let_def)

lemma enable_wdd: "wdd (aspeed_wdt_enable w c) = wdd w"
  by (simp add: aspeed_wdt_enable_def wdt_writel_def writel_def Let_def)

lemmas enable_simps = enable_regs enable_events enable_ctrl enable_wdd

subsection \<open>Setting the timeout\<close>

text \<open>
  For a timeout of 1 to 4294 seconds, on an instance with the maximum heartbeat that the
  probe sets, \<open>aspeed_wdt_set_timeout\<close> stores the exact number of microseconds in the
  reload register.
\<close>

lemma set_timeout_in_range:
  assumes "max_hw_heartbeat_ms (wdd w) = WDT_MAX_TIMEOUT_MS" and "1 \<le> unat t" and "unat t \<le> 4294"
  shows "unat (readl WDT_RELOAD_VALUE (base (snd (aspeed_wdt_set_timeout w t))))
           = unat t * 1000000"
proof -
  have "t \<le> 4294967000"
    using assms(3) by (simp add: word_le_nat_alt)
  then have "min t (WDT_MAX_TIMEOUT_MS * 1000) = t"
    by (simp add: WDT_MAX_TIMEOUT_MS_def)
  then show ?thesis
    using assms(1,3)
    by (simp add: aspeed_wdt_set_timeout_def Let_def wdt_writel_def writel_def readl_def
        WDT_RATE_1MHZ_def reg_offsets scaled_exact)
qed

text \<open>
  C1. The claim: a timeout of 1 to 4294 seconds is written to the reload register as
  that many microseconds, and a timeout whose count in microseconds does not fit 32 bits
  is written as the clamped maximum, never wrapped. The first half is
  \<open>set_timeout_in_range\<close>. The second half fails: the bound of the \<open>min\<close> in line 112 is
  \<open>max_hw_heartbeat_ms * 1000 = 4294967000\<close>, which is compared with seconds, so 4295
  seconds pass unclamped and the product wraps modulo \<open>2 ^ 32\<close>: on the instance that a
  plain probe creates, \<open>set_timeout(4295)\<close> writes 32704 (about 33 ms) to the reload
  register.
\<close>

theorem set_timeout_wraps:
  "max_hw_heartbeat_ms (wdd plain_wdt) = WDT_MAX_TIMEOUT_MS \<and>
   readl WDT_RELOAD_VALUE (base (snd (aspeed_wdt_set_timeout plain_wdt 4295))) = 32704 \<and>
   (32704 :: nat) = (4295 * 1000000) mod 2 ^ 32 \<and>
   events (base (snd (aspeed_wdt_set_timeout plain_wdt 4295))) =
     [Writel 32704 WDT_RELOAD_VALUE, Writel WDT_RESTART_MAGIC WDT_RESTART]"
  by (simp add: aspeed_wdt_set_timeout_def Let_def wdt_writel_def writel_def readl_def
        WDT_RATE_1MHZ_def reg_offsets plain_wdt_def idle_io_def WDT_MAX_TIMEOUT_MS_def)

text \<open>
  C10. \<open>set_timeout\<close> writes the reload register and then the restart register, and
  nothing else: the cached control bits and the control register (so also the enable
  flag in both) are as before, and every other register keeps its value.
\<close>

theorem set_timeout_frame:
  "fst (aspeed_wdt_set_timeout w t) = 0 \<and>
   ctrl (snd (aspeed_wdt_set_timeout w t)) = ctrl w \<and>
   readl WDT_CTRL (base (snd (aspeed_wdt_set_timeout w t))) = readl WDT_CTRL (base w) \<and>
   regs (base (snd (aspeed_wdt_set_timeout w t))) =
     (regs (base w))
       (WDT_RELOAD_VALUE := min t (max_hw_heartbeat_ms (wdd w) * 1000) * 1000000,
        WDT_RESTART := WDT_RESTART_MAGIC) \<and>
   events (base (snd (aspeed_wdt_set_timeout w t))) = events (base w) @
     [Writel (min t (max_hw_heartbeat_ms (wdd w) * 1000) * 1000000) WDT_RELOAD_VALUE,
      Writel WDT_RESTART_MAGIC WDT_RESTART]"
  by (simp add: aspeed_wdt_set_timeout_def Let_def wdt_writel_def writel_def readl_def
        WDT_RATE_1MHZ_def reg_offsets)

subsection \<open>Starting, stopping and restarting\<close>

text \<open>
  What \<open>start()\<close> does in every state: it appends exactly four writes to the trace,
  0 to the control register (a value with the enable flag clear), the timeout times
  1000000 as an \<open>unsigned int\<close> product to the reload register, the restart magic to the
  restart register, and the cached control bits with the enable flag set to the control
  register. Afterwards the control register has the enable flag set. Up to 4294 seconds
  the reload value is the exact number of microseconds.
\<close>

lemma start_sequence:
  "fst (aspeed_wdt_start w) = 0 \<and>
   events (base (snd (aspeed_wdt_start w))) = events (base w) @
     [Writel 0 WDT_CTRL,
      Writel (timeout (wdd w) * 1000000) WDT_RELOAD_VALUE,
      Writel WDT_RESTART_MAGIC WDT_RESTART,
      Writel (ctrl w OR WDT_CTRL_ENABLE) WDT_CTRL] \<and>
   (0 :: u32) AND WDT_CTRL_ENABLE = 0 \<and>
   (ctrl w OR WDT_CTRL_ENABLE) AND WDT_CTRL_ENABLE = WDT_CTRL_ENABLE \<and>
   ctrl (snd (aspeed_wdt_start w)) = ctrl w OR WDT_CTRL_ENABLE \<and>
   readl WDT_CTRL (base (snd (aspeed_wdt_start w))) AND WDT_CTRL_ENABLE = WDT_CTRL_ENABLE \<and>
   WDT_CTRL_ENABLE \<noteq> 0 \<and>
   (unat (timeout (wdd w)) \<le> 4294 \<longrightarrow>
      unat (readl WDT_RELOAD_VALUE (base (snd (aspeed_wdt_start w))))
        = unat (timeout (wdd w)) * 1000000)"
  by (simp add: aspeed_wdt_start_def enable_simps readl_def WDT_RATE_1MHZ_def
        or_enable_and_enable enable_nonzero reg_offsets scaled_exact)

lemma start_sequence_at_default:
  "unat (timeout (wdd plain_wdt)) \<le> 4294 \<and>
   unat (readl WDT_RELOAD_VALUE (base (snd (aspeed_wdt_start plain_wdt)))) = 30000000 \<and>
   events (base (snd (aspeed_wdt_start plain_wdt))) =
     [Writel 0 0x0C, Writel 30000000 0x04, Writel 0x4755 0x08, Writel 0x13 0x0C]"
  using start_sequence [of plain_wdt]
  by (simp add: plain_wdt_def idle_io_def reg_offsets ctrl_bits WDT_RESTART_MAGIC_def)

text \<open>
  C3. The claim: every call to \<open>start()\<close> writes the control register with the enable
  flag clear, then the reload value = current timeout times 1000000, then the restart
  magic, then the cached control bits with the enable flag set, and leaves the enable
  flag set. The order of the writes and the enable flag are as claimed
  (\<open>start_sequence\<close>), but the reload value is not the product for every stored
  timeout: line 80 multiplies on \<open>unsigned int\<close> with no clamp, although
  \<open>aspeed_wdt_set_timeout\<close> applies a \<open>min\<close> before the same multiplication. After
  \<open>set_timeout(4295)\<close> on the instance that a plain probe creates, the stored timeout is
  4295 and \<open>start()\<close> writes 32704, which is \<open>4295 * 1000000\<close> modulo \<open>2 ^ 32\<close>, to the
  reload register.
\<close>

theorem start_wraps:
  "timeout (wdd (snd (aspeed_wdt_set_timeout plain_wdt 4295))) = 4295 \<and>
   events (base (snd (aspeed_wdt_start (snd (aspeed_wdt_set_timeout plain_wdt 4295))))) =
     [Writel 32704 WDT_RELOAD_VALUE, Writel WDT_RESTART_MAGIC WDT_RESTART,
      Writel 0 WDT_CTRL, Writel 32704 WDT_RELOAD_VALUE,
      Writel WDT_RESTART_MAGIC WDT_RESTART, Writel 0x13 WDT_CTRL] \<and>
   readl WDT_RELOAD_VALUE
     (base (snd (aspeed_wdt_start (snd (aspeed_wdt_set_timeout plain_wdt 4295))))) = 32704 \<and>
   unat (readl WDT_RELOAD_VALUE
     (base (snd (aspeed_wdt_start (snd (aspeed_wdt_set_timeout plain_wdt 4295))))))
     \<noteq> 4295 * 1000000 \<and>
   (32704 :: nat) = (4295 * 1000000) mod 2 ^ 32"
  by (simp add: aspeed_wdt_start_def aspeed_wdt_enable_def aspeed_wdt_set_timeout_def Let_def
        wdt_writel_def writel_def readl_def WDT_RATE_1MHZ_def reg_offsets ctrl_bits
        plain_wdt_def idle_io_def WDT_MAX_TIMEOUT_MS_def)

text \<open>
  C9. \<open>stop()\<close> clears the enable flag of the cached control bits and no other bit,
  and writes the result to the control register. A second \<open>stop()\<close> leaves the cached
  control bits and every register as the first one left them.
\<close>

theorem stop_idempotent:
  "fst (aspeed_wdt_stop w) = 0 \<and>
   ctrl (snd (aspeed_wdt_stop w)) = ctrl w AND NOT WDT_CTRL_ENABLE \<and>
   ctrl (snd (aspeed_wdt_stop w)) AND WDT_CTRL_ENABLE = 0 \<and>
   ctrl (snd (aspeed_wdt_stop w)) OR (ctrl w AND WDT_CTRL_ENABLE) = ctrl w \<and>
   events (base (snd (aspeed_wdt_stop w))) =
     events (base w) @ [Writel (ctrl w AND NOT WDT_CTRL_ENABLE) WDT_CTRL] \<and>
   regs (base (snd (aspeed_wdt_stop w))) =
     (regs (base w))(WDT_CTRL := ctrl w AND NOT WDT_CTRL_ENABLE) \<and>
   wdd (snd (aspeed_wdt_stop w)) = wdd w \<and>
   ctrl (snd (aspeed_wdt_stop (snd (aspeed_wdt_stop w)))) = ctrl (snd (aspeed_wdt_stop w)) \<and>
   regs (base (snd (aspeed_wdt_stop (snd (aspeed_wdt_stop w)))))
     = regs (base (snd (aspeed_wdt_stop w)))"
  by (simp add: aspeed_wdt_stop_def Let_def wdt_writel_def writel_def word_bw_assocs
        bit_eq_iff bit_simps) (auto simp: bit_simps)

text \<open>
  C8. \<open>restart(action, data)\<close> does the same for every \<open>action\<close> and \<open>data\<close>: it runs
  \<open>aspeed_wdt_enable\<close>, the routine behind \<open>start()\<close>, with the count 128000, which
  leaves 128000 in the reload register and the enable flag set in the control register;
  then it delays for 1000 ms and returns 0.
\<close>

theorem restart_forces_reset:
  "aspeed_wdt_restart w action data = aspeed_wdt_restart w action' data' \<and>
   fst (aspeed_wdt_restart w action data) = 0 \<and>
   snd (aspeed_wdt_restart w action data) =
     (aspeed_wdt_enable w 128000)\<lparr>base := mdelay 1000 (base (aspeed_wdt_enable w 128000))\<rparr> \<and>
   events (base (snd (aspeed_wdt_restart w action data))) = events (base w) @
     [Writel 0 WDT_CTRL,
      Writel 128000 WDT_RELOAD_VALUE,
      Writel WDT_RESTART_MAGIC WDT_RESTART,
      Writel (ctrl w OR WDT_CTRL_ENABLE) WDT_CTRL,
      Mdelay 1000] \<and>
   readl WDT_RELOAD_VALUE (base (snd (aspeed_wdt_restart w action data))) = 128000 \<and>
   readl WDT_CTRL (base (snd (aspeed_wdt_restart w action data))) AND WDT_CTRL_ENABLE
     = WDT_CTRL_ENABLE \<and>
   WDT_CTRL_ENABLE \<noteq> 0 \<and>
   ctrl (snd (aspeed_wdt_restart w action data)) = ctrl w OR WDT_CTRL_ENABLE \<and>
   wdd (snd (aspeed_wdt_restart w action data)) = wdd w"
  by (simp add: aspeed_wdt_restart_def Let_def enable_simps readl_def mdelay_def WDT_RATE_1MHZ_def
        or_enable_and_enable enable_nonzero reg_offsets)

subsection \<open>The blocks of the probe\<close>

lemma wdt_writel_simps:
  "ctrl (wdt_writel v off w) = ctrl w"
  "wdd (wdt_writel v off w) = wdd w"
  "regs (base (wdt_writel v off w)) = (regs (base w))(off := v)"
  "events (base (wdt_writel v off w)) = events (base w) @ [Writel v off]"
  by (simp_all add: wdt_writel_def writel_def)

lemma probe_defaults_simps:
  "ctrl (probe_defaults k io) = WDT_CTRL_1MHZ_CLK"
  "base (probe_defaults k io) = io"
  "wdd (probe_defaults k io) =
     \<lparr>timeout = init_timeout k \<lparr>timeout = WDT_DEFAULT_TIMEOUT,
                  max_hw_heartbeat_ms = WDT_MAX_TIMEOUT_MS, status = 0\<rparr>,
      max_hw_heartbeat_ms = WDT_MAX_TIMEOUT_MS, status = 0\<rparr>"
  by (simp_all add: probe_defaults_def)

lemma probe_reset_type_simps:
  "base (probe_reset_type np w) = base w"
  "wdd (probe_reset_type np w) = wdd w"
  "ctrl (probe_reset_type np w) = ctrl w
     OR (case reset_type np of
           None \<Rightarrow> WDT_CTRL_RESET_SYSTEM
         | Some s \<Rightarrow> if s = ''cpu'' then WDT_CTRL_RESET_MODE_ARM_CPU
                     else if s = ''soc'' then WDT_CTRL_RESET_MODE_SOC
                     else if s = ''system'' then WDT_CTRL_RESET_SYSTEM else 0)
     OR (if external_signal np then WDT_CTRL_WDT_EXT else 0)"
  by (simp_all add: probe_reset_type_def Let_def word_bw_assocs split: option.split)

lemma probe_hw_running_idle:
  "regs (base w) WDT_CTRL AND WDT_CTRL_ENABLE = 0 \<Longrightarrow> probe_hw_running k w = w"
  by (simp add: probe_hw_running_def readl_def)

lemma probe_hw_running_armed:
  assumes "regs (base w) WDT_CTRL AND WDT_CTRL_ENABLE \<noteq> 0"
  shows "ctrl (probe_hw_running k w) = ctrl w OR WDT_CTRL_ENABLE"
    and "wdd (probe_hw_running k w) =
           (wdd w)\<lparr>status := set_bit_ul (WDOG_HW_RUNNING k) (status (wdd w))\<rparr>"
    and "regs (base (probe_hw_running k w)) =
           (regs (base w))(WDT_RELOAD_VALUE := timeout (wdd w) * 1000000,
              WDT_RESTART := WDT_RESTART_MAGIC, WDT_CTRL := ctrl w OR WDT_CTRL_ENABLE)"
    and "events (base (probe_hw_running k w)) = events (base w) @
           [Writel 0 WDT_CTRL, Writel (timeout (wdd w) * 1000000) WDT_RELOAD_VALUE,
            Writel WDT_RESTART_MAGIC WDT_RESTART, Writel (ctrl w OR WDT_CTRL_ENABLE) WDT_CTRL]"
  using assms
  by (simp_all add: probe_hw_running_def readl_def aspeed_wdt_start_def Let_def enable_simps
      WDT_RATE_1MHZ_def)

lemma probe_reset_width_simps:
  "ctrl (probe_reset_width np w) = ctrl w"
  "wdd (probe_reset_width np w) = wdd w"
  by (simp_all add: probe_reset_width_def Let_def wdt_writel_simps)

lemma probe_reset_width_other:
  "\<not> is_ast2500 np \<Longrightarrow> probe_reset_width np w = w"
  by (simp add: probe_reset_width_def)

lemma duration_or_magic:
  fixes x :: u32
  shows "(x AND WDT_RESET_WIDTH_DURATION OR WDT_PUSH_PULL_MAGIC) AND WDT_RESET_WIDTH_DURATION
           = x AND WDT_RESET_WIDTH_DURATION"
    and "(x AND WDT_RESET_WIDTH_DURATION OR WDT_OPEN_DRAIN_MAGIC) AND WDT_RESET_WIDTH_DURATION
           = x AND WDT_RESET_WIDTH_DURATION"
    and "(x AND WDT_RESET_WIDTH_DURATION OR WDT_ACTIVE_HIGH_MAGIC) AND WDT_RESET_WIDTH_DURATION
           = x AND WDT_RESET_WIDTH_DURATION"
    and "(x AND WDT_RESET_WIDTH_DURATION OR WDT_ACTIVE_LOW_MAGIC) AND WDT_RESET_WIDTH_DURATION
           = x AND WDT_RESET_WIDTH_DURATION"
  by (simp_all add: width_bits bit.conj_disj_distrib2 word_bw_assocs)

lemma probe_reset_width_ast2500:
  assumes "is_ast2500 np"
  shows "regs (base (probe_reset_width np w)) =
           (regs (base w))(WDT_RESET_WIDTH :=
              regs (base w) WDT_RESET_WIDTH AND WDT_RESET_WIDTH_DURATION
                OR (if ext_active_high np then WDT_ACTIVE_HIGH_MAGIC else WDT_ACTIVE_LOW_MAGIC))"
    and "events (base (probe_reset_width np w)) = events (base w) @
           [Writel (regs (base w) WDT_RESET_WIDTH AND WDT_RESET_WIDTH_DURATION
                      OR (if ext_push_pull np then WDT_PUSH_PULL_MAGIC else WDT_OPEN_DRAIN_MAGIC))
              WDT_RESET_WIDTH,
            Writel (regs (base w) WDT_RESET_WIDTH AND WDT_RESET_WIDTH_DURATION
                      OR (if ext_active_high np then WDT_ACTIVE_HIGH_MAGIC else WDT_ACTIVE_LOW_MAGIC))
              WDT_RESET_WIDTH]"
  using assms
  by (simp_all add: probe_reset_width_def Let_def wdt_writel_simps readl_def duration_or_magic)


subsection \<open>The probe as a whole\<close>

lemma probe_Inr_iff:
  "aspeed_wdt_probe k np io = Inr w \<longleftrightarrow>
     kzalloc_ok k \<and> ioremap_err k = None \<and> register_ret k = 0 \<and>
     (case ext_pulse_duration np of
        None \<Rightarrow> w = probe_reset_width np (probe_hw_running k
                      (probe_reset_type np (probe_defaults k io)))
      | Some d \<Rightarrow> d \<le> WDT_RESET_WIDTH_DURATION \<and>
          w = wdt_writel d WDT_RESET_WIDTH (probe_reset_width np (probe_hw_running k
                (probe_reset_type np (probe_defaults k io)))))"
  by (auto simp: aspeed_wdt_probe_def Let_def probe_pulse_duration_def probe_register_def
      split: option.splits)

lemma probe_io_eq:
  assumes "kzalloc_ok k" and "ioremap_err k = None"
  shows "probe_io (aspeed_wdt_probe k np io) =
     (case ext_pulse_duration np of
        None \<Rightarrow> base (probe_reset_width np (probe_hw_running k
                      (probe_reset_type np (probe_defaults k io))))
      | Some d \<Rightarrow>
          if d \<le> WDT_RESET_WIDTH_DURATION
          then base (wdt_writel d WDT_RESET_WIDTH (probe_reset_width np (probe_hw_running k
                (probe_reset_type np (probe_defaults k io)))))
          else base (probe_reset_width np (probe_hw_running k
                (probe_reset_type np (probe_defaults k io)))))"
  using assms
  by (auto simp: aspeed_wdt_probe_def Let_def probe_pulse_duration_def probe_register_def
      probe_io_def split: option.splits)

lemma probe_ctrl:
  assumes "aspeed_wdt_probe k np io = Inr w"
  shows "ctrl w = WDT_CTRL_1MHZ_CLK
     OR (case reset_type np of
           None \<Rightarrow> WDT_CTRL_RESET_SYSTEM
         | Some s \<Rightarrow> if s = ''cpu'' then WDT_CTRL_RESET_MODE_ARM_CPU
                     else if s = ''soc'' then WDT_CTRL_RESET_MODE_SOC
                     else if s = ''system'' then WDT_CTRL_RESET_SYSTEM else 0)
     OR (if external_signal np then WDT_CTRL_WDT_EXT else 0)
     OR (if regs io WDT_CTRL AND WDT_CTRL_ENABLE \<noteq> 0 then WDT_CTRL_ENABLE else 0)"
proof -
  let ?w2 = "probe_reset_type np (probe_defaults k io)"
  have "ctrl w = ctrl (probe_hw_running k ?w2)"
    using assms
    by (auto simp: probe_Inr_iff wdt_writel_simps probe_reset_width_simps split: option.splits)
  also have "\<dots> = ctrl ?w2
      OR (if regs io WDT_CTRL AND WDT_CTRL_ENABLE \<noteq> 0 then WDT_CTRL_ENABLE else 0)"
    by (simp add: probe_hw_running_idle probe_hw_running_armed probe_reset_type_simps
        probe_defaults_simps)
  finally show ?thesis
    by (simp add: probe_reset_type_simps probe_defaults_simps word_bw_assocs)
qed

lemma probe_wdd:
  assumes "aspeed_wdt_probe k np io = Inr w"
  shows "timeout (wdd w) = init_timeout k \<lparr>timeout = WDT_DEFAULT_TIMEOUT,
            max_hw_heartbeat_ms = WDT_MAX_TIMEOUT_MS, status = 0\<rparr>"
    and "max_hw_heartbeat_ms (wdd w) = WDT_MAX_TIMEOUT_MS"
    and "status (wdd w) = (if regs io WDT_CTRL AND WDT_CTRL_ENABLE \<noteq> 0
           then set_bit_ul (WDOG_HW_RUNNING k) 0 else 0)"
proof -
  let ?w2 = "probe_reset_type np (probe_defaults k io)"
  have w: "wdd w = wdd (probe_hw_running k ?w2)"
    using assms
    by (auto simp: probe_Inr_iff wdt_writel_simps probe_reset_width_simps split: option.splits)
  show "timeout (wdd w) = init_timeout k \<lparr>timeout = WDT_DEFAULT_TIMEOUT,
            max_hw_heartbeat_ms = WDT_MAX_TIMEOUT_MS, status = 0\<rparr>"
    unfolding w
    by (cases "regs io WDT_CTRL AND WDT_CTRL_ENABLE = 0")
      (simp_all add: probe_hw_running_idle probe_hw_running_armed probe_reset_type_simps
        probe_defaults_simps)
  show "max_hw_heartbeat_ms (wdd w) = WDT_MAX_TIMEOUT_MS"
    unfolding w
    by (cases "regs io WDT_CTRL AND WDT_CTRL_ENABLE = 0")
      (simp_all add: probe_hw_running_idle probe_hw_running_armed probe_reset_type_simps
        probe_defaults_simps)
  show "status (wdd w) = (if regs io WDT_CTRL AND WDT_CTRL_ENABLE \<noteq> 0
           then set_bit_ul (WDOG_HW_RUNNING k) 0 else 0)"
    unfolding w
    by (cases "regs io WDT_CTRL AND WDT_CTRL_ENABLE = 0")
      (simp_all add: probe_hw_running_idle probe_hw_running_armed probe_reset_type_simps
        probe_defaults_simps)
qed

lemma plain_probe: "aspeed_wdt_probe plain_kernel plain_node idle_io = Inr plain_wdt"
  by (simp add: aspeed_wdt_probe_def plain_kernel_def plain_node_def idle_io_def plain_wdt_def
      probe_defaults_def probe_reset_type_def probe_hw_running_def probe_reset_width_def
      probe_pulse_duration_def probe_register_def readl_def ctrl_bits
      WDT_MAX_TIMEOUT_MS_def WDT_DEFAULT_TIMEOUT_def)

text \<open>
  C2. When the probe succeeds, the cached control bits decode the reset type as follows.
  No reset type, and \<open>"system"\<close>: the system-reset flag is set and the reset-mode bits
  are those of the soc mode, which is zero. \<open>"cpu"\<close>: the ARM-CPU reset-mode bits are set
  and the system-reset flag is clear. \<open>"soc"\<close>: the reset-mode bits are zero and the
  system-reset flag is clear. Any other string: the probe gives the same result as for
  \<open>"soc"\<close>, and it is a success, not an error.
\<close>

theorem reset_scope_decoding:
  assumes "aspeed_wdt_probe k np io = Inr w"
  shows "(reset_type np = None \<or> reset_type np = Some ''system'' \<longrightarrow>
            ctrl w AND WDT_CTRL_RESET_SYSTEM = WDT_CTRL_RESET_SYSTEM \<and>
            ctrl w AND WDT_CTRL_RESET_MODE_ARM_CPU = 0 \<and>
            ctrl w AND WDT_CTRL_RESET_MODE_FULL_CHIP = 0) \<and>
         (reset_type np = Some ''cpu'' \<longrightarrow>
            ctrl w AND WDT_CTRL_RESET_MODE_ARM_CPU = WDT_CTRL_RESET_MODE_ARM_CPU \<and>
            ctrl w AND WDT_CTRL_RESET_MODE_FULL_CHIP = 0 \<and>
            ctrl w AND WDT_CTRL_RESET_SYSTEM = 0) \<and>
         (reset_type np = Some ''soc'' \<longrightarrow>
            ctrl w AND WDT_CTRL_RESET_MODE_ARM_CPU = 0 \<and>
            ctrl w AND WDT_CTRL_RESET_MODE_FULL_CHIP = 0 \<and>
            ctrl w AND WDT_CTRL_RESET_SYSTEM = 0) \<and>
         (\<forall>s. reset_type np = Some s \<longrightarrow> s \<noteq> ''cpu'' \<longrightarrow> s \<noteq> ''soc'' \<longrightarrow> s \<noteq> ''system'' \<longrightarrow>
            aspeed_wdt_probe k (np\<lparr>reset_type := Some ''soc''\<rparr>) io = Inr w) \<and>
         WDT_CTRL_RESET_MODE_SOC = 0 \<and>
         WDT_CTRL_RESET_SYSTEM \<noteq> 0 \<and> WDT_CTRL_RESET_MODE_ARM_CPU \<noteq> 0"
proof -
  note c = probe_ctrl [OF assms]
  have sys: "reset_type np = None \<or> reset_type np = Some ''system'' \<longrightarrow>
            ctrl w AND WDT_CTRL_RESET_SYSTEM = WDT_CTRL_RESET_SYSTEM \<and>
            ctrl w AND WDT_CTRL_RESET_MODE_ARM_CPU = 0 \<and>
            ctrl w AND WDT_CTRL_RESET_MODE_FULL_CHIP = 0"
    unfolding c by (auto simp: ctrl_bits)
  have cpu: "reset_type np = Some ''cpu'' \<longrightarrow>
            ctrl w AND WDT_CTRL_RESET_MODE_ARM_CPU = WDT_CTRL_RESET_MODE_ARM_CPU \<and>
            ctrl w AND WDT_CTRL_RESET_MODE_FULL_CHIP = 0 \<and>
            ctrl w AND WDT_CTRL_RESET_SYSTEM = 0"
    unfolding c by (auto simp: ctrl_bits)
  have soc: "reset_type np = Some ''soc'' \<longrightarrow>
            ctrl w AND WDT_CTRL_RESET_MODE_ARM_CPU = 0 \<and>
            ctrl w AND WDT_CTRL_RESET_MODE_FULL_CHIP = 0 \<and>
            ctrl w AND WDT_CTRL_RESET_SYSTEM = 0"
    unfolding c by (auto simp: ctrl_bits)
  have other: "aspeed_wdt_probe k (np\<lparr>reset_type := Some ''soc''\<rparr>) io = Inr w"
    if "reset_type np = Some s" "s \<noteq> ''cpu''" "s \<noteq> ''soc''" "s \<noteq> ''system''" for s
  proof -
    have "probe_reset_type (np\<lparr>reset_type := Some ''soc''\<rparr>) w0 = probe_reset_type np w0" for w0
      using that by (simp add: probe_reset_type_def Let_def WDT_CTRL_RESET_MODE_SOC_def)
    then have "aspeed_wdt_probe k (np\<lparr>reset_type := Some ''soc''\<rparr>) io = aspeed_wdt_probe k np io"
      by (simp add: aspeed_wdt_probe_def Let_def probe_reset_width_def probe_pulse_duration_def
          split: option.split)
    then show ?thesis using assms by simp
  qed
  show ?thesis
    using sys cpu soc other by (simp add: ctrl_bits)
qed


theorem reset_scope_decoding_witness:
  "aspeed_wdt_probe plain_kernel plain_node idle_io = Inr plain_wdt \<and>
   ctrl plain_wdt AND WDT_CTRL_RESET_SYSTEM = WDT_CTRL_RESET_SYSTEM \<and>
   aspeed_wdt_probe plain_kernel (plain_node\<lparr>reset_type := Some ''system''\<rparr>) idle_io
     = Inr plain_wdt \<and>
   aspeed_wdt_probe plain_kernel (plain_node\<lparr>reset_type := Some ''cpu''\<rparr>) idle_io
     = Inr (plain_wdt\<lparr>ctrl := 0x210\<rparr>) \<and>
   (0x210 :: u32) AND WDT_CTRL_RESET_MODE_ARM_CPU = WDT_CTRL_RESET_MODE_ARM_CPU \<and>
   (0x210 :: u32) AND WDT_CTRL_RESET_SYSTEM = 0 \<and>
   aspeed_wdt_probe plain_kernel (plain_node\<lparr>reset_type := Some ''reboot''\<rparr>) idle_io
     = Inr (plain_wdt\<lparr>ctrl := 0x10\<rparr>) \<and>
   aspeed_wdt_probe plain_kernel (plain_node\<lparr>reset_type := Some ''soc''\<rparr>) idle_io
     = Inr (plain_wdt\<lparr>ctrl := 0x10\<rparr>) \<and>
   (0x10 :: u32) AND WDT_CTRL_RESET_SYSTEM = 0"
proof -
  note ev = aspeed_wdt_probe_def plain_kernel_def plain_node_def idle_io_def plain_wdt_def
      probe_defaults_def probe_reset_type_def probe_hw_running_def probe_reset_width_def
      probe_pulse_duration_def probe_register_def readl_def ctrl_bits
      WDT_MAX_TIMEOUT_MS_def WDT_DEFAULT_TIMEOUT_def
  have none: "aspeed_wdt_probe plain_kernel plain_node idle_io = Inr plain_wdt"
    by (simp add: ev)
  have sys: "aspeed_wdt_probe plain_kernel (plain_node\<lparr>reset_type := Some ''system''\<rparr>) idle_io
     = Inr plain_wdt"
    by (simp add: ev)
  have cpu: "aspeed_wdt_probe plain_kernel (plain_node\<lparr>reset_type := Some ''cpu''\<rparr>) idle_io
     = Inr (plain_wdt\<lparr>ctrl := 0x210\<rparr>)"
    by (simp add: ev)
  have other: "aspeed_wdt_probe plain_kernel (plain_node\<lparr>reset_type := Some ''reboot''\<rparr>) idle_io
     = Inr (plain_wdt\<lparr>ctrl := 0x10\<rparr>)"
    by (simp add: ev)
  have soc: "aspeed_wdt_probe plain_kernel
      (plain_node\<lparr>reset_type := Some ''reboot'', reset_type := Some ''soc''\<rparr>) idle_io
     = Inr (plain_wdt\<lparr>ctrl := 0x10\<rparr>)"
    using reset_scope_decoding [OF other] by (simp add: plain_node_def)
  show ?thesis
    using none sys cpu other soc
      reset_scope_decoding [OF none] reset_scope_decoding [OF sys] reset_scope_decoding [OF cpu]
    by (simp add: plain_node_def plain_wdt_def ctrl_bits)
qed

subsection \<open>The register block after the probe\<close>

lemma hw_running_events:
  "events (base (probe_hw_running k (probe_reset_type np (probe_defaults k io)))) =
     events io @
     (if regs io WDT_CTRL AND WDT_CTRL_ENABLE \<noteq> 0 then
        [Writel 0 WDT_CTRL,
         Writel (init_timeout k \<lparr>timeout = WDT_DEFAULT_TIMEOUT,
                   max_hw_heartbeat_ms = WDT_MAX_TIMEOUT_MS, status = 0\<rparr> * 1000000)
           WDT_RELOAD_VALUE,
         Writel WDT_RESTART_MAGIC WDT_RESTART,
         Writel (ctrl (probe_reset_type np (probe_defaults k io)) OR WDT_CTRL_ENABLE) WDT_CTRL]
      else [])"
  by (simp add: probe_hw_running_idle probe_hw_running_armed probe_reset_type_simps
      probe_defaults_simps)

lemma hw_running_regs:
  "regs (base (probe_hw_running k (probe_reset_type np (probe_defaults k io)))) =
     (if regs io WDT_CTRL AND WDT_CTRL_ENABLE \<noteq> 0 then
        (regs io)
          (WDT_RELOAD_VALUE := init_timeout k \<lparr>timeout = WDT_DEFAULT_TIMEOUT,
                   max_hw_heartbeat_ms = WDT_MAX_TIMEOUT_MS, status = 0\<rparr> * 1000000,
           WDT_RESTART := WDT_RESTART_MAGIC,
           WDT_CTRL := ctrl (probe_reset_type np (probe_defaults k io)) OR WDT_CTRL_ENABLE)
      else regs io)"
  by (simp add: probe_hw_running_idle probe_hw_running_armed probe_reset_type_simps
      probe_defaults_simps)

lemma hw_running_reset_width:
  "regs (base (probe_hw_running k (probe_reset_type np (probe_defaults k io)))) WDT_RESET_WIDTH
     = regs io WDT_RESET_WIDTH"
  by (simp add: hw_running_regs reg_offsets)

lemma reset_width_events:
  "events (base (probe_reset_width np w)) = events (base w) @
     (if is_ast2500 np then
        [Writel (regs (base w) WDT_RESET_WIDTH AND WDT_RESET_WIDTH_DURATION
                   OR (if ext_push_pull np then WDT_PUSH_PULL_MAGIC else WDT_OPEN_DRAIN_MAGIC))
           WDT_RESET_WIDTH,
         Writel (regs (base w) WDT_RESET_WIDTH AND WDT_RESET_WIDTH_DURATION
                   OR (if ext_active_high np then WDT_ACTIVE_HIGH_MAGIC else WDT_ACTIVE_LOW_MAGIC))
           WDT_RESET_WIDTH]
      else [])"
  by (cases "is_ast2500 np") (simp_all add: probe_reset_width_ast2500 probe_reset_width_other)

lemma reset_width_regs:
  "regs (base (probe_reset_width np w)) =
     (if is_ast2500 np then
        (regs (base w))(WDT_RESET_WIDTH :=
              regs (base w) WDT_RESET_WIDTH AND WDT_RESET_WIDTH_DURATION
                OR (if ext_active_high np then WDT_ACTIVE_HIGH_MAGIC else WDT_ACTIVE_LOW_MAGIC))
      else regs (base w))"
  by (cases "is_ast2500 np") (simp_all add: probe_reset_width_ast2500 probe_reset_width_other)

lemma probe_io_events:
  assumes "kzalloc_ok k" and "ioremap_err k = None"
  shows "events (probe_io (aspeed_wdt_probe k np io)) =
     events (base (probe_hw_running k (probe_reset_type np (probe_defaults k io)))) @
     (if is_ast2500 np then
        [Writel (regs io WDT_RESET_WIDTH AND WDT_RESET_WIDTH_DURATION
                   OR (if ext_push_pull np then WDT_PUSH_PULL_MAGIC else WDT_OPEN_DRAIN_MAGIC))
           WDT_RESET_WIDTH,
         Writel (regs io WDT_RESET_WIDTH AND WDT_RESET_WIDTH_DURATION
                   OR (if ext_active_high np then WDT_ACTIVE_HIGH_MAGIC else WDT_ACTIVE_LOW_MAGIC))
           WDT_RESET_WIDTH]
      else []) @
     (case ext_pulse_duration np of
        None \<Rightarrow> []
      | Some d \<Rightarrow> if d \<le> WDT_RESET_WIDTH_DURATION then [Writel d WDT_RESET_WIDTH] else [])"
  by (simp add: probe_io_eq [OF assms] wdt_writel_simps reset_width_events
      hw_running_reset_width split: option.split)

lemma probe_io_regs:
  assumes "kzalloc_ok k" and "ioremap_err k = None" and "off \<noteq> WDT_RESET_WIDTH"
  shows "regs (probe_io (aspeed_wdt_probe k np io)) off =
     regs (base (probe_hw_running k (probe_reset_type np (probe_defaults k io)))) off"
  using assms(3)
  by (simp add: probe_io_eq [OF assms(1,2)] wdt_writel_simps reset_width_regs
      split: option.split)

lemma probe_io_reset_width:
  assumes "kzalloc_ok k" and "ioremap_err k = None"
  shows "regs (probe_io (aspeed_wdt_probe k np io)) WDT_RESET_WIDTH =
     (case ext_pulse_duration np of
        None \<Rightarrow>
          if is_ast2500 np
          then regs io WDT_RESET_WIDTH AND WDT_RESET_WIDTH_DURATION
                OR (if ext_active_high np then WDT_ACTIVE_HIGH_MAGIC else WDT_ACTIVE_LOW_MAGIC)
          else regs io WDT_RESET_WIDTH
      | Some d \<Rightarrow>
          if d \<le> WDT_RESET_WIDTH_DURATION then d
          else if is_ast2500 np
          then regs io WDT_RESET_WIDTH AND WDT_RESET_WIDTH_DURATION
                OR (if ext_active_high np then WDT_ACTIVE_HIGH_MAGIC else WDT_ACTIVE_LOW_MAGIC)
          else regs io WDT_RESET_WIDTH)"
  by (simp add: probe_io_eq [OF assms] wdt_writel_simps reset_width_regs
      hw_running_reset_width split: option.split)

lemma probe_io_Inr: "probe_io (Inr w) = base w"
  by (simp add: probe_io_def)

subsection \<open>Adoption of a running watchdog\<close>

lemmas plain_eval = aspeed_wdt_probe_def plain_kernel_def plain_node_def idle_io_def plain_wdt_def
  armed_io_def armed_wdt_def
  probe_defaults_def probe_reset_type_def probe_hw_running_def probe_reset_width_def
  probe_pulse_duration_def probe_register_def readl_def ctrl_bits reg_offsets
  WDT_MAX_TIMEOUT_MS_def WDT_DEFAULT_TIMEOUT_def aspeed_wdt_start_def aspeed_wdt_enable_def
  wdt_writel_def writel_def WDT_RATE_1MHZ_def WDT_RESTART_MAGIC_def set_bit_ul_def Let_def

lemma armed_probe: "aspeed_wdt_probe plain_kernel plain_node armed_io = Inr armed_wdt"
  by (simp add: plain_eval)

lemma new_events_append:
  "events after = events before @ xs \<Longrightarrow> new_events before after = xs"
  by (simp add: new_events_def)

lemma set_bit_ul_test: "nr < 32 \<Longrightarrow> test_bit_ul nr (set_bit_ul nr w)"
  by (simp add: test_bit_ul_def set_bit_ul_def bit_simps)

text \<open>
  C4. Let the probe succeed, with \<open>WDOG_HW_RUNNING\<close> a bit of the status word. If the
  control register had the enable flag set when the probe began, then afterwards the
  control register holds the cached control bits, with the enable flag and the 1 MHz clock
  flag set, the status has the \<open>WDOG_HW_RUNNING\<close> mark, and the first four writes of the
  probe are the start sequence. If the enable flag was clear, the mark is not set, the
  cached enable flag is clear, the control, reload and restart registers are untouched,
  and the probe wrote to the pulse register only.
\<close>

theorem adopts_running_watchdog:
  assumes "aspeed_wdt_probe k np io = Inr w" and "WDOG_HW_RUNNING k < 32"
  shows "(readl WDT_CTRL io AND WDT_CTRL_ENABLE \<noteq> 0 \<longrightarrow>
            readl WDT_CTRL (base w) AND WDT_CTRL_ENABLE = WDT_CTRL_ENABLE \<and>
            readl WDT_CTRL (base w) AND WDT_CTRL_1MHZ_CLK = WDT_CTRL_1MHZ_CLK \<and>
            readl WDT_CTRL (base w) = ctrl w \<and>
            test_bit_ul (WDOG_HW_RUNNING k) (status (wdd w)) \<and>
            take 4 (new_events io (base w)) =
              [Writel 0 WDT_CTRL,
               Writel (timeout (wdd w) * 1000000) WDT_RELOAD_VALUE,
               Writel WDT_RESTART_MAGIC WDT_RESTART,
               Writel (ctrl w) WDT_CTRL]) \<and>
         (readl WDT_CTRL io AND WDT_CTRL_ENABLE = 0 \<longrightarrow>
            \<not> test_bit_ul (WDOG_HW_RUNNING k) (status (wdd w)) \<and>
            ctrl w AND WDT_CTRL_ENABLE = 0 \<and>
            readl WDT_CTRL (base w) = readl WDT_CTRL io \<and>
            readl WDT_RELOAD_VALUE (base w) = readl WDT_RELOAD_VALUE io \<and>
            readl WDT_RESTART (base w) = readl WDT_RESTART io \<and>
            (\<forall>e \<in> set (new_events io (base w)). writes_to WDT_RESET_WIDTH e)) \<and>
         WDT_CTRL_ENABLE \<noteq> 0 \<and> WDT_CTRL_1MHZ_CLK \<noteq> 0"
proof -
  let ?H = "probe_hw_running k (probe_reset_type np (probe_defaults k io))"
  have ok: "kzalloc_ok k" "ioremap_err k = None"
    using assms(1) by (simp_all add: probe_Inr_iff)
  have io: "probe_io (aspeed_wdt_probe k np io) = base w"
    using assms(1) by (simp add: probe_io_Inr)
  note c = probe_ctrl [OF assms(1)]
  note t = probe_wdd [OF assms(1)]
  have regs: "regs (base w) off = regs (base ?H) off" if "off \<noteq> WDT_RESET_WIDTH" for off
    using probe_io_regs [OF ok that, of np io] by (simp add: io)
  have ev: "new_events io (base w) =
     (if regs io WDT_CTRL AND WDT_CTRL_ENABLE \<noteq> 0 then
        [Writel 0 WDT_CTRL,
         Writel (timeout (wdd w) * 1000000) WDT_RELOAD_VALUE,
         Writel WDT_RESTART_MAGIC WDT_RESTART,
         Writel (ctrl (probe_reset_type np (probe_defaults k io)) OR WDT_CTRL_ENABLE) WDT_CTRL]
      else []) @
     (if is_ast2500 np then
        [Writel (regs io WDT_RESET_WIDTH AND WDT_RESET_WIDTH_DURATION
                   OR (if ext_push_pull np then WDT_PUSH_PULL_MAGIC else WDT_OPEN_DRAIN_MAGIC))
           WDT_RESET_WIDTH,
         Writel (regs io WDT_RESET_WIDTH AND WDT_RESET_WIDTH_DURATION
                   OR (if ext_active_high np then WDT_ACTIVE_HIGH_MAGIC else WDT_ACTIVE_LOW_MAGIC))
           WDT_RESET_WIDTH]
      else []) @
     (case ext_pulse_duration np of
        None \<Rightarrow> []
      | Some d \<Rightarrow> if d \<le> WDT_RESET_WIDTH_DURATION then [Writel d WDT_RESET_WIDTH] else [])"
    by (rule new_events_append)
      (use probe_io_events [OF ok, of np io] in \<open>simp add: io hw_running_events t\<close>)
  have armed: "readl WDT_CTRL (base w) AND WDT_CTRL_ENABLE = WDT_CTRL_ENABLE \<and>
            readl WDT_CTRL (base w) AND WDT_CTRL_1MHZ_CLK = WDT_CTRL_1MHZ_CLK \<and>
            readl WDT_CTRL (base w) = ctrl w \<and>
            test_bit_ul (WDOG_HW_RUNNING k) (status (wdd w)) \<and>
            take 4 (new_events io (base w)) =
              [Writel 0 WDT_CTRL,
               Writel (timeout (wdd w) * 1000000) WDT_RELOAD_VALUE,
               Writel WDT_RESTART_MAGIC WDT_RESTART,
               Writel (ctrl w) WDT_CTRL]"
    if run: "regs io WDT_CTRL AND WDT_CTRL_ENABLE \<noteq> 0"
  proof -
    have cw: "ctrl w = ctrl (probe_reset_type np (probe_defaults k io)) OR WDT_CTRL_ENABLE"
      using run by (simp add: c probe_reset_type_simps probe_defaults_simps word_bw_assocs)
    have r: "regs (base w) WDT_CTRL = ctrl w"
      using run by (simp add: regs reg_offsets hw_running_regs cw)
    have "ctrl w AND WDT_CTRL_1MHZ_CLK = WDT_CTRL_1MHZ_CLK"
      unfolding c by (simp add: bit_eq_iff bit_simps)
    moreover have "ctrl w AND WDT_CTRL_ENABLE = WDT_CTRL_ENABLE"
      unfolding cw by (rule or_enable_and_enable)
    moreover have "test_bit_ul (WDOG_HW_RUNNING k) (status (wdd w))"
      using run assms(2) by (simp add: t set_bit_ul_test)
    ultimately show ?thesis
      using run by (simp add: readl_def r ev cw)
  qed
  have idle: "\<not> test_bit_ul (WDOG_HW_RUNNING k) (status (wdd w)) \<and>
            ctrl w AND WDT_CTRL_ENABLE = 0 \<and>
            readl WDT_CTRL (base w) = readl WDT_CTRL io \<and>
            readl WDT_RELOAD_VALUE (base w) = readl WDT_RELOAD_VALUE io \<and>
            readl WDT_RESTART (base w) = readl WDT_RESTART io \<and>
            (\<forall>e \<in> set (new_events io (base w)). writes_to WDT_RESET_WIDTH e)"
    if stopped: "regs io WDT_CTRL AND WDT_CTRL_ENABLE = 0"
  proof -
    have "ctrl w AND WDT_CTRL_ENABLE = 0"
      unfolding c using stopped by (simp add: ctrl_bits split: option.split)
    moreover have "\<forall>e \<in> set (new_events io (base w)). writes_to WDT_RESET_WIDTH e"
      unfolding ev using stopped by (auto split: option.split)
    ultimately show ?thesis
      using stopped
      by (simp add: readl_def regs reg_offsets hw_running_regs t test_bit_ul_def)
  qed
  have "WDT_CTRL_ENABLE \<noteq> 0 \<and> WDT_CTRL_1MHZ_CLK \<noteq> 0"
    by (simp add: ctrl_bits)
  then show ?thesis
    using armed idle unfolding readl_def by blast
qed

theorem adopts_running_watchdog_witness:
  "aspeed_wdt_probe plain_kernel plain_node armed_io = Inr armed_wdt \<and>
   WDOG_HW_RUNNING plain_kernel < 32 \<and>
   readl WDT_CTRL armed_io AND WDT_CTRL_ENABLE \<noteq> 0 \<and>
   readl WDT_CTRL (base armed_wdt) AND WDT_CTRL_ENABLE = WDT_CTRL_ENABLE \<and>
   readl WDT_CTRL (base armed_wdt) AND WDT_CTRL_1MHZ_CLK = WDT_CTRL_1MHZ_CLK \<and>
   test_bit_ul (WDOG_HW_RUNNING plain_kernel) (status (wdd armed_wdt)) \<and>
   aspeed_wdt_probe plain_kernel plain_node idle_io = Inr plain_wdt \<and>
   readl WDT_CTRL idle_io AND WDT_CTRL_ENABLE = 0 \<and>
   \<not> test_bit_ul (WDOG_HW_RUNNING plain_kernel) (status (wdd plain_wdt)) \<and>
   new_events idle_io (base plain_wdt) = []"
proof -
  have b: "WDOG_HW_RUNNING plain_kernel < 32"
    by (simp add: plain_kernel_def)
  have r: "readl WDT_CTRL armed_io AND WDT_CTRL_ENABLE \<noteq> 0"
    by (simp add: plain_eval)
  have i: "readl WDT_CTRL idle_io AND WDT_CTRL_ENABLE = 0"
    by (simp add: plain_eval)
  have n: "new_events idle_io (base plain_wdt) = []"
    by (simp add: new_events_def plain_wdt_def)
  show ?thesis
    using adopts_running_watchdog [OF armed_probe b] adopts_running_watchdog [OF plain_probe b]
      armed_probe plain_probe b r i n
    by (simp add: armed_wdt_def ctrl_bits)
qed

subsection \<open>The stored timeout\<close>

text \<open>
  C5, as stated: after every operation, and after \<open>set_timeout\<close> with any unsigned
  argument, the stored timeout is at least 1 and at most the longest duration of the
  hardware. It fails: \<open>set_timeout\<close> stores its argument as it is, so after
  \<open>set_timeout(0)\<close> the stored timeout is 0, and after \<open>set_timeout(4294967295)\<close> it is
  far above the \<open>max_hw_heartbeat_ms\<close> of 4294967 ms.
\<close>

theorem stored_timeout_unbounded_counterexample:
  "timeout (wdd (snd (aspeed_wdt_set_timeout plain_wdt 0))) = 0 \<and>
   \<not> 1 \<le> timeout (wdd (snd (aspeed_wdt_set_timeout plain_wdt 0))) \<and>
   timeout (wdd (snd (aspeed_wdt_set_timeout plain_wdt 4294967295))) = 4294967295 \<and>
   \<not> unat (timeout (wdd (snd (aspeed_wdt_set_timeout plain_wdt 4294967295)))) * 1000
       \<le> unat (max_hw_heartbeat_ms (wdd (snd (aspeed_wdt_set_timeout plain_wdt 4294967295))))"
  by (simp add: aspeed_wdt_set_timeout_def Let_def wdt_writel_def plain_wdt_def)

text \<open>
  C5, amended. \<open>set_timeout\<close> stores exactly its argument, whatever it is, and leaves
  \<open>max_hw_heartbeat_ms\<close> alone; \<open>start\<close>, \<open>stop\<close>, \<open>ping\<close> and \<open>restart\<close> do not change
  the watchdog device fields at all. A successful probe leaves the timeout that
  \<open>watchdog_init_timeout\<close> returns for the default of 30 seconds, and the default itself
  is within the bounds.
\<close>

theorem stored_timeout:
  "timeout (wdd (snd (aspeed_wdt_set_timeout w t))) = t \<and>
   max_hw_heartbeat_ms (wdd (snd (aspeed_wdt_set_timeout w t))) = max_hw_heartbeat_ms (wdd w) \<and>
   wdd (snd (aspeed_wdt_start w)) = wdd w \<and>
   wdd (snd (aspeed_wdt_stop w)) = wdd w \<and>
   wdd (snd (aspeed_wdt_ping w)) = wdd w \<and>
   wdd (snd (aspeed_wdt_restart w action data)) = wdd w \<and>
   (\<forall>k np io w'. aspeed_wdt_probe k np io = Inr w' \<longrightarrow>
      timeout (wdd w') = init_timeout k \<lparr>timeout = WDT_DEFAULT_TIMEOUT,
            max_hw_heartbeat_ms = WDT_MAX_TIMEOUT_MS, status = 0\<rparr> \<and>
      max_hw_heartbeat_ms (wdd w') = WDT_MAX_TIMEOUT_MS) \<and>
   1 \<le> WDT_DEFAULT_TIMEOUT \<and>
   unat WDT_DEFAULT_TIMEOUT * 1000 \<le> unat WDT_MAX_TIMEOUT_MS"
proof -
  have "timeout (wdd (snd (aspeed_wdt_set_timeout w t))) = t \<and>
     max_hw_heartbeat_ms (wdd (snd (aspeed_wdt_set_timeout w t))) = max_hw_heartbeat_ms (wdd w)"
    by (simp add: aspeed_wdt_set_timeout_def Let_def wdt_writel_simps)
  moreover have "wdd (snd (aspeed_wdt_start w)) = wdd w"
    by (simp add: aspeed_wdt_start_def enable_wdd)
  moreover have "wdd (snd (aspeed_wdt_stop w)) = wdd w"
    by (simp add: aspeed_wdt_stop_def Let_def wdt_writel_simps)
  moreover have "wdd (snd (aspeed_wdt_ping w)) = wdd w"
    by (simp add: aspeed_wdt_ping_def wdt_writel_simps)
  moreover have "wdd (snd (aspeed_wdt_restart w action data)) = wdd w"
    by (simp add: aspeed_wdt_restart_def Let_def enable_wdd)
  moreover have "1 \<le> WDT_DEFAULT_TIMEOUT \<and>
      unat WDT_DEFAULT_TIMEOUT * 1000 \<le> unat WDT_MAX_TIMEOUT_MS"
    by (simp add: WDT_DEFAULT_TIMEOUT_def WDT_MAX_TIMEOUT_MS_def)
  ultimately show ?thesis
    using probe_wdd(1,2) by blast
qed

theorem stored_timeout_witness:
  "aspeed_wdt_probe plain_kernel plain_node idle_io = Inr plain_wdt \<and>
   timeout (wdd plain_wdt) = 30 \<and>
   timeout (wdd (snd (aspeed_wdt_set_timeout plain_wdt 45))) = 45"
  using stored_timeout [of plain_wdt 45] plain_probe
  by (simp add: plain_wdt_def)

subsection \<open>The pulse duration\<close>

text \<open>
  C6, as stated: the pulse duration is applied only on the variant with the pulse
  register. It fails: the block of lines 240--251 is outside the \<open>of_device_is_compatible\<close>
  test, so on a node that is not an ast2500 a duration of 5 is written to
  \<open>WDT_RESET_WIDTH\<close>, and a duration of 4096 makes the probe fail with \<open>-EINVAL\<close>.
\<close>

theorem pulse_duration_any_variant_counterexample:
  "is_ast2500 (plain_node\<lparr>ext_pulse_duration := Some 5\<rparr>) = False \<and>
   events (probe_io (aspeed_wdt_probe plain_kernel
      (plain_node\<lparr>ext_pulse_duration := Some 5\<rparr>) idle_io)) = [Writel 5 WDT_RESET_WIDTH] \<and>
   is_ast2500 (plain_node\<lparr>ext_pulse_duration := Some 4096\<rparr>) = False \<and>
   aspeed_wdt_probe plain_kernel (plain_node\<lparr>ext_pulse_duration := Some 4096\<rparr>) idle_io
     = Inl (- EINVAL, idle_io)"
  by (simp add: aspeed_wdt_probe_def plain_kernel_def plain_node_def idle_io_def
      probe_defaults_def probe_reset_type_def probe_hw_running_def probe_reset_width_def
      probe_pulse_duration_def probe_register_def readl_def ctrl_bits reg_offsets
      wdt_writel_def writel_def probe_io_def WDT_RESET_WIDTH_DURATION_def Let_def)

text \<open>
  C6, amended. On every variant, a supplied pulse duration above 4095 makes the probe
  fail: it returns an error in any case, and \<open>-EINVAL\<close> when the allocation and the
  mapping succeeded. A supplied duration of at most 4095 is the last write of the probe,
  unscaled, to the pulse register, which then holds exactly that value; the probe
  succeeds when the registration does.
\<close>

theorem pulse_duration_checked:
  assumes "ext_pulse_duration np = Some d"
  shows "(d > WDT_RESET_WIDTH_DURATION \<longrightarrow>
            (\<exists>err io'. aspeed_wdt_probe k np io = Inl (err, io')) \<and>
            (kzalloc_ok k \<and> ioremap_err k = None \<longrightarrow>
               (\<exists>io'. aspeed_wdt_probe k np io = Inl (- EINVAL, io')))) \<and>
         (d \<le> WDT_RESET_WIDTH_DURATION \<and> kzalloc_ok k \<and> ioremap_err k = None \<longrightarrow>
            readl WDT_RESET_WIDTH (probe_io (aspeed_wdt_probe k np io)) = d \<and>
            last (events (probe_io (aspeed_wdt_probe k np io))) = Writel d WDT_RESET_WIDTH \<and>
            (register_ret k = 0 \<longrightarrow> (\<exists>w. aspeed_wdt_probe k np io = Inr w))) \<and>
         unat WDT_RESET_WIDTH_DURATION = 4095 \<and> EINVAL = 22"
proof -
  have big: "(\<exists>err io'. aspeed_wdt_probe k np io = Inl (err, io')) \<and>
            (kzalloc_ok k \<and> ioremap_err k = None \<longrightarrow>
               (\<exists>io'. aspeed_wdt_probe k np io = Inl (- EINVAL, io')))"
    if "d > WDT_RESET_WIDTH_DURATION"
    using that assms
    by (simp add: aspeed_wdt_probe_def Let_def probe_pulse_duration_def split: option.split)
  have small: "readl WDT_RESET_WIDTH (probe_io (aspeed_wdt_probe k np io)) = d \<and>
            last (events (probe_io (aspeed_wdt_probe k np io))) = Writel d WDT_RESET_WIDTH \<and>
            (register_ret k = 0 \<longrightarrow> (\<exists>w. aspeed_wdt_probe k np io = Inr w))"
    if "d \<le> WDT_RESET_WIDTH_DURATION" and ok: "kzalloc_ok k" "ioremap_err k = None"
    using that assms
    by (simp add: readl_def probe_io_reset_width [OF ok] probe_io_events [OF ok] probe_Inr_iff)
  have "unat WDT_RESET_WIDTH_DURATION = 4095 \<and> EINVAL = 22"
    by (simp add: WDT_RESET_WIDTH_DURATION_def EINVAL_def)
  then show ?thesis
    using big small by blast
qed

theorem pulse_duration_checked_witness:
  "ext_pulse_duration (plain_node\<lparr>ext_pulse_duration := Some 4096\<rparr>) = Some 4096 \<and>
   (4096 :: u32) > WDT_RESET_WIDTH_DURATION \<and>
   kzalloc_ok plain_kernel \<and> ioremap_err plain_kernel = None \<and> register_ret plain_kernel = 0 \<and>
   (\<exists>io'. aspeed_wdt_probe plain_kernel (plain_node\<lparr>ext_pulse_duration := Some 4096\<rparr>) idle_io
      = Inl (- EINVAL, io')) \<and>
   ext_pulse_duration (plain_node\<lparr>ext_pulse_duration := Some 4095\<rparr>) = Some 4095 \<and>
   (4095 :: u32) \<le> WDT_RESET_WIDTH_DURATION \<and>
   readl WDT_RESET_WIDTH (probe_io (aspeed_wdt_probe plain_kernel
      (plain_node\<lparr>ext_pulse_duration := Some 4095\<rparr>) idle_io)) = 4095 \<and>
   (\<exists>w. aspeed_wdt_probe plain_kernel (plain_node\<lparr>ext_pulse_duration := Some 4095\<rparr>) idle_io
      = Inr w)"
proof -
  have a: "ext_pulse_duration (plain_node\<lparr>ext_pulse_duration := Some 4096\<rparr>) = Some 4096"
    and b: "ext_pulse_duration (plain_node\<lparr>ext_pulse_duration := Some 4095\<rparr>) = Some 4095"
    by simp_all
  have c: "(4096 :: u32) > WDT_RESET_WIDTH_DURATION" "(4095 :: u32) \<le> WDT_RESET_WIDTH_DURATION"
    "kzalloc_ok plain_kernel" "ioremap_err plain_kernel = None" "register_ret plain_kernel = 0"
    by (simp_all add: WDT_RESET_WIDTH_DURATION_def plain_kernel_def)
  show ?thesis
    using pulse_duration_checked [OF a, of plain_kernel idle_io]
      pulse_duration_checked [OF b, of plain_kernel idle_io] a b c
    by simp
qed

subsection \<open>Drive mode and polarity of the pulse\<close>

text \<open>
  C7. On an ast2500 node (allocation and mapping having succeeded), the writes of the
  probe to the pulse register are: first the drive-mode tag and then the polarity tag,
  each OR-ed with the 12-bit duration field that the register held before, followed only
  by the explicit duration when one is supplied. The duration field of each of the two
  written values is the field as it was before, for every initial value of the register;
  so when no explicit duration is supplied, the duration field read back after the probe
  is unchanged. The tags are the bytes \<open>0xA8\<close>, \<open>0x8A\<close>, \<open>0xA5\<close> and \<open>0x5A\<close> in the top
  byte.
\<close>

theorem pulse_shape_preserves_duration:
  assumes "kzalloc_ok k" and "ioremap_err k = None" and "is_ast2500 np"
  shows "filter (writes_to WDT_RESET_WIDTH) (new_events io (probe_io (aspeed_wdt_probe k np io))) =
           [Writel (readl WDT_RESET_WIDTH io AND WDT_RESET_WIDTH_DURATION
                      OR (if ext_push_pull np then WDT_PUSH_PULL_MAGIC else WDT_OPEN_DRAIN_MAGIC))
              WDT_RESET_WIDTH,
            Writel (readl WDT_RESET_WIDTH io AND WDT_RESET_WIDTH_DURATION
                      OR (if ext_active_high np then WDT_ACTIVE_HIGH_MAGIC else WDT_ACTIVE_LOW_MAGIC))
              WDT_RESET_WIDTH] @
           (case ext_pulse_duration np of
              None \<Rightarrow> []
            | Some d \<Rightarrow> if d \<le> WDT_RESET_WIDTH_DURATION then [Writel d WDT_RESET_WIDTH] else []) \<and>
         (readl WDT_RESET_WIDTH io AND WDT_RESET_WIDTH_DURATION
            OR (if ext_push_pull np then WDT_PUSH_PULL_MAGIC else WDT_OPEN_DRAIN_MAGIC))
           AND WDT_RESET_WIDTH_DURATION = readl WDT_RESET_WIDTH io AND WDT_RESET_WIDTH_DURATION \<and>
         (readl WDT_RESET_WIDTH io AND WDT_RESET_WIDTH_DURATION
            OR (if ext_active_high np then WDT_ACTIVE_HIGH_MAGIC else WDT_ACTIVE_LOW_MAGIC))
           AND WDT_RESET_WIDTH_DURATION = readl WDT_RESET_WIDTH io AND WDT_RESET_WIDTH_DURATION \<and>
         (ext_pulse_duration np = None \<longrightarrow>
            readl WDT_RESET_WIDTH (probe_io (aspeed_wdt_probe k np io)) AND WDT_RESET_WIDTH_DURATION
              = readl WDT_RESET_WIDTH io AND WDT_RESET_WIDTH_DURATION) \<and>
         WDT_PUSH_PULL_MAGIC = push_bit 24 0xA8 \<and> WDT_OPEN_DRAIN_MAGIC = push_bit 24 0x8A \<and>
         WDT_ACTIVE_HIGH_MAGIC = push_bit 24 0xA5 \<and> WDT_ACTIVE_LOW_MAGIC = push_bit 24 0x5A \<and>
         WDT_RESET_WIDTH_DURATION = mask 12"
proof -
  have ev: "new_events io (probe_io (aspeed_wdt_probe k np io)) =
     (if regs io WDT_CTRL AND WDT_CTRL_ENABLE \<noteq> 0 then
        [Writel 0 WDT_CTRL,
         Writel (init_timeout k \<lparr>timeout = WDT_DEFAULT_TIMEOUT,
                   max_hw_heartbeat_ms = WDT_MAX_TIMEOUT_MS, status = 0\<rparr> * 1000000)
           WDT_RELOAD_VALUE,
         Writel WDT_RESTART_MAGIC WDT_RESTART,
         Writel (ctrl (probe_reset_type np (probe_defaults k io)) OR WDT_CTRL_ENABLE) WDT_CTRL]
      else []) @
     [Writel (regs io WDT_RESET_WIDTH AND WDT_RESET_WIDTH_DURATION
                   OR (if ext_push_pull np then WDT_PUSH_PULL_MAGIC else WDT_OPEN_DRAIN_MAGIC))
           WDT_RESET_WIDTH,
      Writel (regs io WDT_RESET_WIDTH AND WDT_RESET_WIDTH_DURATION
                   OR (if ext_active_high np then WDT_ACTIVE_HIGH_MAGIC else WDT_ACTIVE_LOW_MAGIC))
           WDT_RESET_WIDTH] @
     (case ext_pulse_duration np of
        None \<Rightarrow> []
      | Some d \<Rightarrow> if d \<le> WDT_RESET_WIDTH_DURATION then [Writel d WDT_RESET_WIDTH] else [])"
    by (rule new_events_append)
      (use probe_io_events [OF assms(1,2), of np io] assms(3) in \<open>simp add: hw_running_events\<close>)
  have writes: "filter (writes_to WDT_RESET_WIDTH)
        (new_events io (probe_io (aspeed_wdt_probe k np io))) =
           [Writel (readl WDT_RESET_WIDTH io AND WDT_RESET_WIDTH_DURATION
                      OR (if ext_push_pull np then WDT_PUSH_PULL_MAGIC else WDT_OPEN_DRAIN_MAGIC))
              WDT_RESET_WIDTH,
            Writel (readl WDT_RESET_WIDTH io AND WDT_RESET_WIDTH_DURATION
                      OR (if ext_active_high np then WDT_ACTIVE_HIGH_MAGIC else WDT_ACTIVE_LOW_MAGIC))
              WDT_RESET_WIDTH] @
           (case ext_pulse_duration np of
              None \<Rightarrow> []
            | Some d \<Rightarrow> if d \<le> WDT_RESET_WIDTH_DURATION then [Writel d WDT_RESET_WIDTH] else [])"
    unfolding ev readl_def
    by (simp add: reg_offsets split: option.split)
  have kept: "(readl WDT_RESET_WIDTH io AND WDT_RESET_WIDTH_DURATION
            OR (if ext_push_pull np then WDT_PUSH_PULL_MAGIC else WDT_OPEN_DRAIN_MAGIC))
           AND WDT_RESET_WIDTH_DURATION = readl WDT_RESET_WIDTH io AND WDT_RESET_WIDTH_DURATION"
     "(readl WDT_RESET_WIDTH io AND WDT_RESET_WIDTH_DURATION
            OR (if ext_active_high np then WDT_ACTIVE_HIGH_MAGIC else WDT_ACTIVE_LOW_MAGIC))
           AND WDT_RESET_WIDTH_DURATION = readl WDT_RESET_WIDTH io AND WDT_RESET_WIDTH_DURATION"
    by (simp_all add: duration_or_magic)
  have after: "readl WDT_RESET_WIDTH (probe_io (aspeed_wdt_probe k np io))
                 AND WDT_RESET_WIDTH_DURATION
              = readl WDT_RESET_WIDTH io AND WDT_RESET_WIDTH_DURATION"
    if "ext_pulse_duration np = None"
    using that assms(3)
    by (simp add: readl_def probe_io_reset_width [OF assms(1,2)] duration_or_magic)
  have vals: "WDT_PUSH_PULL_MAGIC = push_bit 24 0xA8 \<and> WDT_OPEN_DRAIN_MAGIC = push_bit 24 0x8A \<and>
         WDT_ACTIVE_HIGH_MAGIC = push_bit 24 0xA5 \<and> WDT_ACTIVE_LOW_MAGIC = push_bit 24 0x5A \<and>
         WDT_RESET_WIDTH_DURATION = mask 12"
    by (simp add: width_bits mask_eq_exp_minus_1)
  show ?thesis
    using writes kept after vals by blast
qed

theorem pulse_shape_preserves_duration_witness:
  "kzalloc_ok plain_kernel \<and> ioremap_err plain_kernel = None \<and>
   is_ast2500 (plain_node\<lparr>is_ast2500 := True, ext_push_pull := True\<rparr>) \<and>
   ext_pulse_duration (plain_node\<lparr>is_ast2500 := True, ext_push_pull := True\<rparr>) = None \<and>
   readl WDT_RESET_WIDTH armed_io = 0xFF \<and>
   filter (writes_to WDT_RESET_WIDTH) (new_events armed_io (probe_io (aspeed_wdt_probe plain_kernel
       (plain_node\<lparr>is_ast2500 := True, ext_push_pull := True\<rparr>) armed_io))) =
     [Writel 0xA80000FF WDT_RESET_WIDTH, Writel 0x5A0000FF WDT_RESET_WIDTH] \<and>
   readl WDT_RESET_WIDTH (probe_io (aspeed_wdt_probe plain_kernel
       (plain_node\<lparr>is_ast2500 := True, ext_push_pull := True\<rparr>) armed_io))
     AND WDT_RESET_WIDTH_DURATION = 0xFF"
proof -
  have a: "kzalloc_ok plain_kernel" "ioremap_err plain_kernel = None"
    by (simp_all add: plain_kernel_def)
  have b: "is_ast2500 (plain_node\<lparr>is_ast2500 := True, ext_push_pull := True\<rparr>)"
    by simp
  have c: "ext_pulse_duration (plain_node\<lparr>is_ast2500 := True, ext_push_pull := True\<rparr>) = None"
    by (simp add: plain_node_def)
  have d: "readl WDT_RESET_WIDTH armed_io = 0xFF"
    by (simp add: readl_def armed_io_def reg_offsets)
  show ?thesis
    using pulse_shape_preserves_duration [OF a b, of armed_io] a b c d
    by (simp add: width_bits plain_node_def)
qed

end
